theory Spec2Isabelle
  imports Complex_Main "HOL-Library.AList" "HOL-Library.Monad_Syntax"
begin

section \<open>JavaScript numbers\<close>

text \<open>
  A JavaScript number is a finite value or one of the three special values. Finite
  values are idealised as reals (no rounding, no overflow); the special values follow
  IEEE 754 as ECMAScript prescribes. The two zeros are identified, and a zero divisor
  is read as \<open>+0\<close>: the only divisor of the program that can vanish is the result
  of \<open>Math.sqrt\<close> applied to a sum of squares, which is \<open>+0\<close>.
\<close>

datatype jsnum = Fin real | PInf | NInf | NaN

fun jneg :: "jsnum \<Rightarrow> jsnum" where
  "jneg (Fin a) = Fin (- a)"
| "jneg PInf = NInf"
| "jneg NInf = PInf"
| "jneg NaN = NaN"

fun jadd :: "jsnum \<Rightarrow> jsnum \<Rightarrow> jsnum" where
  "jadd (Fin a) (Fin b) = Fin (a + b)"
| "jadd NaN _ = NaN"
| "jadd _ NaN = NaN"
| "jadd PInf NInf = NaN"
| "jadd NInf PInf = NaN"
| "jadd PInf _ = PInf"
| "jadd _ PInf = PInf"
| "jadd NInf _ = NInf"
| "jadd _ NInf = NInf"

definition jsub :: "jsnum \<Rightarrow> jsnum \<Rightarrow> jsnum" where
  "jsub a b = jadd a (jneg b)"

fun jmul :: "jsnum \<Rightarrow> jsnum \<Rightarrow> jsnum" where
  "jmul (Fin a) (Fin b) = Fin (a * b)"
| "jmul NaN _ = NaN"
| "jmul _ NaN = NaN"
| "jmul (Fin a) b = (if a = 0 then NaN else if 0 < a then b else jneg b)"
| "jmul a (Fin b) = (if b = 0 then NaN else if 0 < b then a else jneg a)"
| "jmul PInf b = b"
| "jmul NInf b = jneg b"

fun jdiv :: "jsnum \<Rightarrow> jsnum \<Rightarrow> jsnum" where
  "jdiv (Fin a) (Fin b) =
     (if b \<noteq> 0 then Fin (a / b)
      else if a = 0 then NaN
      else if 0 < a then PInf else NInf)"
| "jdiv NaN _ = NaN"
| "jdiv _ NaN = NaN"
| "jdiv (Fin a) _ = Fin 0"
| "jdiv PInf (Fin b) = (if 0 \<le> b then PInf else NInf)"
| "jdiv NInf (Fin b) = (if 0 \<le> b then NInf else PInf)"
| "jdiv _ _ = NaN"

fun jlt :: "jsnum \<Rightarrow> jsnum \<Rightarrow> bool" where
  "jlt (Fin a) (Fin b) = (a < b)"
| "jlt NaN _ = False"
| "jlt _ NaN = False"
| "jlt PInf _ = False"
| "jlt _ NInf = False"
| "jlt _ _ = True"

definition jgt :: "jsnum \<Rightarrow> jsnum \<Rightarrow> bool" where
  "jgt a b = jlt b a"

definition jge :: "jsnum \<Rightarrow> jsnum \<Rightarrow> bool" where
  "jge a b = (a \<noteq> NaN \<and> b \<noteq> NaN \<and> \<not> jlt a b)"

fun Math_min :: "jsnum \<Rightarrow> jsnum \<Rightarrow> jsnum" where
  "Math_min (Fin a) (Fin b) = Fin (min a b)"
| "Math_min NaN _ = NaN"
| "Math_min _ NaN = NaN"
| "Math_min NInf _ = NInf"
| "Math_min _ NInf = NInf"
| "Math_min PInf b = b"
| "Math_min a PInf = a"

fun Math_floor :: "jsnum \<Rightarrow> jsnum" where
  "Math_floor (Fin a) = Fin (of_int \<lfloor>a\<rfloor>)"
| "Math_floor a = a"

text \<open>\<open>Math.round\<close> rounds to the nearest integer, ties towards \<open>+\<infinity>\<close>.\<close>

fun Math_round :: "jsnum \<Rightarrow> jsnum" where
  "Math_round (Fin a) = Fin (of_int \<lfloor>a + 1 / 2\<rfloor>)"
| "Math_round a = a"

fun Math_sin :: "jsnum \<Rightarrow> jsnum" where
  "Math_sin (Fin a) = Fin (sin a)"
| "Math_sin _ = NaN"

text \<open>\<open>Math.pow(a, 2)\<close>.\<close>

definition Math_pow2 :: "jsnum \<Rightarrow> jsnum" where
  "Math_pow2 a = jmul a a"

definition Math_atan2 :: "real \<Rightarrow> real \<Rightarrow> real" where
  "Math_atan2 y x =
     (if 0 < x then arctan (y / x)
      else if x < 0 then (if 0 \<le> y then arctan (y / x) + pi else arctan (y / x) - pi)
      else if 0 < y then pi / 2
      else if y < 0 then - pi / 2
      else 0)"

section \<open>Grid geometry (grid.js)\<close>

text \<open>
  The configuration objects of state.js are records. The counts \<open>cols\<close>,
  \<open>rows\<close> and \<open>symmetryCount\<close> are integers, the lengths are finite numbers,
  and a mode is the string the program compares it with.
\<close>

record grid =
  cols :: int
  rows :: int
  cellSize :: real
  offsetX :: real
  offsetY :: real
  symmetry :: string
  symmetryCount :: int

record point =
  px :: real
  py :: real

definition getGridCenter :: "grid \<Rightarrow> point" where
  "getGridCenter g =
     \<lparr> px = (of_int (cols g) * cellSize g) / 2 + offsetX g,
       py = (of_int (rows g) * cellSize g) / 2 + offsetY g \<rparr>"

text \<open>
  The half-diagonal of the grid, the local constant \<open>maxDist\<close> of
  \<open>getNormalizedDistance\<close>. The distance divides by it with no test before.
\<close>

definition maxDist :: "grid \<Rightarrow> real" where
  "maxDist g =
     sqrt ((of_int (cols g) * cellSize g / 2)\<^sup>2 + (of_int (rows g) * cellSize g / 2)\<^sup>2)"

definition getNormalizedDistance :: "grid \<Rightarrow> real \<Rightarrow> real \<Rightarrow> jsnum" where
  "getNormalizedDistance g x y =
     (let center = getGridCenter g;
          dst = sqrt ((x - px center)\<^sup>2 + (y - py center)\<^sup>2)
      in Math_min (jdiv (Fin dst) (Fin (maxDist g))) (Fin 1))"

text \<open>
  A cell as \<open>applySymmetry\<close> builds it. The property \<open>rotation\<close> exists on radial
  copies only; \<open>None\<close> is its absence.
\<close>

record cell =
  cell_x :: real
  cell_y :: real
  cell_col :: int
  cell_row :: int
  cell_dist :: jsnum
  isOriginal :: bool
  cell_rotation :: "real option"

text \<open>The cell that the loop of the case \<open>radial\<close> pushes at index \<open>i\<close>.\<close>

definition radialCopy :: "grid \<Rightarrow> real \<Rightarrow> real \<Rightarrow> int \<Rightarrow> int \<Rightarrow> jsnum \<Rightarrow> point \<Rightarrow> int \<Rightarrow> cell" where
  "radialCopy g x y col row dst center i =
     (let dx = x - px center;
          dy = y - py center;
          baseAngle = Math_atan2 dy dx;
          radius = sqrt (dx * dx + dy * dy);
          angle = baseAngle + (pi * 2 * of_int i) / of_int (symmetryCount g)
      in \<lparr> cell_x = px center + cos angle * radius,
           cell_y = py center + sin angle * radius,
           cell_col = col,
           cell_row = row,
           cell_dist = dst,
           isOriginal = False,
           cell_rotation = Some ((360 * of_int i) / of_int (symmetryCount g)) \<rparr>)"

definition applySymmetry :: "grid \<Rightarrow> real \<Rightarrow> real \<Rightarrow> int \<Rightarrow> int \<Rightarrow> jsnum \<Rightarrow> point \<Rightarrow> cell list" where
  "applySymmetry g x y col row dst center =
     (let cells = [\<lparr> cell_x = x, cell_y = y, cell_col = col, cell_row = row,
                     cell_dist = dst, isOriginal = True, cell_rotation = None \<rparr>]
      in if symmetry g = ''horizontal'' then
           cells @
           [\<lparr> cell_x = px center * 2 - x, cell_y = y, cell_col = cols g - 1 - col,
              cell_row = row, cell_dist = dst, isOriginal = False, cell_rotation = None \<rparr>]
         else if symmetry g = ''vertical'' then
           cells @
           [\<lparr> cell_x = x, cell_y = py center * 2 - y, cell_col = col,
              cell_row = rows g - 1 - row, cell_dist = dst, isOriginal = False,
              cell_rotation = None \<rparr>]
         else if symmetry g = ''both'' then
           cells @
           [\<lparr> cell_x = px center * 2 - x, cell_y = y, cell_col = cols g - 1 - col,
              cell_row = row, cell_dist = dst, isOriginal = False, cell_rotation = None \<rparr>,
            \<lparr> cell_x = x, cell_y = py center * 2 - y, cell_col = col,
              cell_row = rows g - 1 - row, cell_dist = dst, isOriginal = False,
              cell_rotation = None \<rparr>,
            \<lparr> cell_x = px center * 2 - x, cell_y = py center * 2 - y,
              cell_col = cols g - 1 - col, cell_row = rows g - 1 - row, cell_dist = dst,
              isOriginal = False, cell_rotation = None \<rparr>]
         else if symmetry g = ''radial'' then
           cells @ map (radialCopy g x y col row dst center) [1 .. symmetryCount g - 1]
         else cells)"

text \<open>
  The body of the two loops of \<open>getGridCells\<close>: the instances of the base cell at
  \<open>row\<close> and \<open>col\<close>. The rows are the outer loop, the columns the inner one.
\<close>

definition baseCell :: "grid \<Rightarrow> point \<Rightarrow> int \<Rightarrow> int \<Rightarrow> cell list" where
  "baseCell g center row col =
     (let x = of_int col * cellSize g + cellSize g / 2 + offsetX g;
          y = of_int row * cellSize g + cellSize g / 2 + offsetY g;
          dst = getNormalizedDistance g x y
      in applySymmetry g x y col row dst center)"

definition getGridCells :: "grid \<Rightarrow> cell list" where
  "getGridCells g =
     (let center = getGridCenter g
      in concat (map (\<lambda>row. concat (map (baseCell g center row) [0 .. cols g - 1]))
                     [0 .. rows g - 1]))"

section \<open>Configuration objects and easings (state.js)\<close>

record shape =
  shape_type :: string
  shape_size :: real
  shape_rotation :: real
  rotationAuto :: bool
  rotationSpeed :: real
  scaleMode :: string
  scaleMin :: real
  scaleMax :: real
  scalePower :: real
  rotateMode :: string
  rotateMin :: real
  rotateMax :: real
  fillMode :: string
  fillColor :: string
  fillOpacity :: real
  strokeMode :: string
  strokeColor :: string
  strokeWeight :: real
  strokeOpacity :: real
  blendMode :: string

record pattern =
  pattern_enabled :: bool
  seed :: real
  noiseScale :: real
  noiseIntensity :: real
  noiseOctaves :: real
  seedRandom :: bool

record animation =
  animation_enabled :: bool
  speed :: real
  loopDuration :: real
  currentFrame :: real
  playing :: bool
  animation_record :: bool
  animateSize :: bool
  animateRotation :: bool
  animateColor :: bool
  animatePosition :: bool
  sizeRange :: real
  rotationRange :: real
  colorShift :: real
  positionRange :: real

record palette =
  colors :: "string list"
  useGradient :: bool
  gradientAngle :: real

text \<open>The initial values of state.js.\<close>

definition initial_grid :: grid where
  "initial_grid =
     \<lparr> cols = 12, rows = 12, cellSize = 60, offsetX = 0, offsetY = 0,
       symmetry = ''none'', symmetryCount = 6 \<rparr>"

definition initial_shape :: shape where
  "initial_shape =
     \<lparr> shape_type = ''circle'', shape_size = 8 / 10, shape_rotation = 0,
       rotationAuto = False, rotationSpeed = 1 / 2,
       scaleMode = ''linear'', scaleMin = 2 / 10, scaleMax = 1, scalePower = 1,
       rotateMode = ''none'', rotateMin = 0, rotateMax = 360,
       fillMode = ''solid'', fillColor = ''#4a9eff'', fillOpacity = 1,
       strokeMode = ''none'', strokeColor = ''#ffffff'', strokeWeight = 1,
       strokeOpacity = 1, blendMode = ''blend'' \<rparr>"

definition initial_pattern :: pattern where
  "initial_pattern =
     \<lparr> pattern_enabled = False, seed = 1, noiseScale = 1 / 10, noiseIntensity = 1 / 2,
       noiseOctaves = 1, seedRandom = True \<rparr>"

definition initial_animation :: animation where
  "initial_animation =
     \<lparr> animation_enabled = False, speed = 1, loopDuration = 120, currentFrame = 0,
       playing = False, animation_record = False,
       animateSize = True, animateRotation = False, animateColor = False,
       animatePosition = False,
       sizeRange = 3 / 10, rotationRange = 180, colorShift = 1 / 10, positionRange = 10 \<rparr>"

definition initial_palette :: palette where
  "initial_palette =
     \<lparr> colors = [''#4a9eff'', ''#ff6b6b'', ''#4ecdc4'', ''#ffe66d'', ''#a8e6cf''],
       useGradient = False, gradientAngle = 0 \<rparr>"

definition ease_linear :: "jsnum \<Rightarrow> jsnum" where
  "ease_linear t = t"

definition easeIn :: "jsnum \<Rightarrow> jsnum" where
  "easeIn t = jmul t t"

definition easeOut :: "jsnum \<Rightarrow> jsnum" where
  "easeOut t = jsub (Fin 1) (jmul (jsub (Fin 1) t) (jsub (Fin 1) t))"

definition easeInOut :: "jsnum \<Rightarrow> jsnum" where
  "easeInOut t =
     (if jlt t (Fin (1 / 2)) then jmul (jmul (Fin 2) t) t
      else jsub (Fin 1) (jdiv (Math_pow2 (jadd (jmul (Fin (- 2)) t) (Fin 2))) (Fin 2)))"

definition ease_step :: "jsnum \<Rightarrow> jsnum" where
  "ease_step t = (if jgt t (Fin (1 / 2)) then Fin 1 else Fin 0)"

definition swirl :: "jsnum \<Rightarrow> real \<Rightarrow> jsnum" where
  "swirl t pw =
     jadd (jmul (Math_sin (jmul (jmul t (Fin pi)) (Fin pw))) (Fin (1 / 2))) (Fin (1 / 2))"

definition calculateScale :: "shape \<Rightarrow> jsnum \<Rightarrow> jsnum" where
  "calculateScale sh distNormalized =
     (let mode = scaleMode sh
      in if mode = ''none'' then Fin (shape_size sh)
         else
           let t = jsub (Fin 1) distNormalized;
               eased =
                 (if mode = ''easeIn'' then easeIn t
                  else if mode = ''easeOut'' then easeOut t
                  else if mode = ''easeInOut'' then easeInOut t
                  else if mode = ''step'' then ease_step t
                  else if mode = ''swirl'' then swirl t (scalePower sh)
                  else ease_linear t)
           in jadd (Fin (scaleMin sh)) (jmul (Fin (scaleMax sh - scaleMin sh)) eased))"

definition calculateRotation :: "shape \<Rightarrow> jsnum \<Rightarrow> real \<Rightarrow> jsnum" where
  "calculateRotation sh distNormalized baseRotation =
     (let mode = rotateMode sh
      in if mode = ''none'' then Fin baseRotation
         else
           let t = jsub (Fin 1) distNormalized;
               eased =
                 (if mode = ''easeIn'' then easeIn t
                  else if mode = ''easeOut'' then easeOut t
                  else ease_linear t)
           in jadd (Fin (baseRotation + rotateMin sh))
                   (jmul (Fin (rotateMax sh - rotateMin sh)) eased))"

section \<open>Parameter mappers (grid.js)\<close>

text \<open>
  The noise sampler of the simplex-noise package is a parameter \<open>noise2D\<close> of the
  functions that call it. The distance of a cell is the result of
  \<open>getNormalizedDistance\<close>, so the mappers take it as a JavaScript number; the
  animation time is finite.
\<close>

definition getNoiseValue :: "(jsnum \<Rightarrow> jsnum \<Rightarrow> jsnum) \<Rightarrow> pattern \<Rightarrow> jsnum \<Rightarrow> real \<Rightarrow> jsnum" where
  "getNoiseValue noise2D pat dst time =
     (if \<not> pattern_enabled pat then Fin (1 / 2)
      else
        let scale = noiseScale pat;
            sd = seed pat;
            nx = jadd (jmul (jmul dst (Fin scale)) (Fin 10)) (Fin sd);
            ny = Fin (time * scale + sd);
            val = noise2D nx ny
        in jmul (jadd val (Fin 1)) (Fin (1 / 2)))"

definition getShapeSize ::
  "(jsnum \<Rightarrow> jsnum \<Rightarrow> jsnum) \<Rightarrow> grid \<Rightarrow> shape \<Rightarrow> pattern \<Rightarrow> jsnum \<Rightarrow> real \<Rightarrow> jsnum" where
  "getShapeSize noise2D g sh pat dst time =
     (let baseSize = cellSize g * shape_size sh;
          scale = calculateScale sh dst;
          scale' =
            (if pattern_enabled pat
             then jmul scale
                    (jadd (Fin (1 / 2)) (jmul (getNoiseValue noise2D pat dst time) (Fin (1 / 2))))
             else scale)
      in jmul (Fin baseSize) scale')"

definition getShapeRotation :: "shape \<Rightarrow> jsnum \<Rightarrow> real \<Rightarrow> real \<Rightarrow> jsnum" where
  "getShapeRotation sh dst baseRotation time =
     (let rotation = calculateRotation sh dst baseRotation
      in if rotationAuto sh then jadd rotation (Fin (time * 360 * rotationSpeed sh))
         else rotation)"

section \<open>Strings and values\<close>

text \<open>
  A string is a list of code units, here the characters of hexadecimal colour strings.
  A value read from the palette is a string or \<open>undefined\<close>; \<open>getStrokeColor\<close>
  may also return \<open>null\<close>. An exception is the left summand of a result.
\<close>

datatype jsval = Str string | Undefined | Null

datatype error = ReferenceError | TypeError | SyntaxError

text \<open>\<open>s.slice(a, b)\<close> for literal indices \<open>0 \<le> a \<le> b\<close>.\<close>

definition slice :: "string \<Rightarrow> nat \<Rightarrow> nat \<Rightarrow> string" where
  "slice s a b = take (b - a) (drop a s)"

text \<open>\<open>s.padStart(n, c)\<close> for a one-character filler.\<close>

definition padStart :: "string \<Rightarrow> nat \<Rightarrow> char \<Rightarrow> string" where
  "padStart s n c = replicate (n - length s) c @ s"

definition is_white_space :: "char \<Rightarrow> bool" where
  "is_white_space c = (of_char c \<in> {9, 10, 11, 12, 13, 32, 160 :: nat})"

definition hexval :: "char \<Rightarrow> nat option" where
  "hexval c =
     (let n = of_char c :: nat
      in if 48 \<le> n \<and> n \<le> 57 then Some (n - 48)
         else if 97 \<le> n \<and> n \<le> 102 then Some (n - 87)
         else if 65 \<le> n \<and> n \<le> 70 then Some (n - 55)
         else None)"

text \<open>The digits of the longest prefix of radix-16 digits.\<close>

fun hex_prefix :: "string \<Rightarrow> nat list" where
  "hex_prefix [] = []"
| "hex_prefix (c # cs) = (case hexval c of None \<Rightarrow> [] | Some v \<Rightarrow> v # hex_prefix cs)"

definition radix16 :: "nat list \<Rightarrow> nat" where
  "radix16 ds = foldl (\<lambda>acc v. 16 * acc + v) 0 ds"

text \<open>
  \<open>parseInt(str, 16)\<close>: leading white space is dropped, then a sign, then a prefix
  \<open>0x\<close> or \<open>0X\<close>; the longest prefix of hexadecimal digits is the value, and
  there is none when that prefix is empty.
\<close>

definition parseInt16 :: "string \<Rightarrow> jsnum" where
  "parseInt16 str =
     (let s = dropWhile is_white_space str;
          negative = (s \<noteq> [] \<and> hd s = CHR ''-'');
          s1 = (if s \<noteq> [] \<and> (hd s = CHR ''+'' \<or> hd s = CHR ''-'') then tl s else s);
          s2 = (if take 2 s1 = ''0x'' \<or> take 2 s1 = ''0X'' then drop 2 s1 else s1);
          z = hex_prefix s2
      in if z = [] then NaN
         else Fin (if negative then - real (radix16 z) else real (radix16 z)))"

definition hexdigit :: "nat \<Rightarrow> char" where
  "hexdigit v = ''0123456789abcdef'' ! v"

function hex_digits :: "nat \<Rightarrow> string" where
  "hex_digits n =
     (if n < 16 then [hexdigit n] else hex_digits (n div 16) @ [hexdigit (n mod 16)])"
  by pat_completeness auto
termination
  by (relation "measure id") auto

declare hex_digits.simps [simp del]

text \<open>
  \<open>a.toString(16)\<close> for an integral number \<open>a\<close>, which is what \<open>Math.round\<close>
  returns.
\<close>

definition toString16 :: "jsnum \<Rightarrow> string" where
  "toString16 a =
     (case a of
        Fin r \<Rightarrow> (if r < 0 then CHR ''-'' # hex_digits (nat (- \<lfloor>r\<rfloor>))
                  else hex_digits (nat \<lfloor>r\<rfloor>))
      | PInf \<Rightarrow> ''Infinity''
      | NInf \<Rightarrow> ''-Infinity''
      | NaN \<Rightarrow> ''NaN'')"

text \<open>
  \<open>a % b\<close>: the remainder has the sign of the dividend, and there is none for a zero
  divisor.
\<close>

definition js_rem :: "real \<Rightarrow> real \<Rightarrow> jsnum" where
  "js_rem a b =
     (if b = 0 then NaN
      else Fin (a - b * of_int (if 0 \<le> a / b then \<lfloor>a / b\<rfloor> else \<lceil>a / b\<rceil>)))"

text \<open>\<open>xs[i]\<close>: an element for an integral index in range, \<open>undefined\<close> otherwise.\<close>

definition js_index :: "string list \<Rightarrow> jsnum \<Rightarrow> jsval" where
  "js_index xs i =
     (case i of
        Fin r \<Rightarrow>
          (if r = of_int \<lfloor>r\<rfloor> \<and> 0 \<le> r \<and> nat \<lfloor>r\<rfloor> < length xs
           then Str (xs ! nat \<lfloor>r\<rfloor>) else Undefined)
      | _ \<Rightarrow> Undefined)"

section \<open>Colour mappers (grid.js)\<close>

text \<open>
  One channel of \<open>interpolateColor\<close>: \<open>Math.round(v1 + (v2 - v1) * t)\<close>,
  which the function computes for red, green and blue.
\<close>

definition blend :: "jsnum \<Rightarrow> jsnum \<Rightarrow> jsnum \<Rightarrow> jsnum" where
  "blend v1 v2 t = Math_round (jadd v1 (jmul (jsub v2 v1) t))"

definition interpolateColor :: "jsval \<Rightarrow> jsval \<Rightarrow> jsnum \<Rightarrow> error + jsval" where
  "interpolateColor c1 c2 t =
     (case c1 of
        Str s1 \<Rightarrow>
          (case c2 of
             Str s2 \<Rightarrow>
               (let r1 = parseInt16 (slice s1 1 3);
                    g1 = parseInt16 (slice s1 3 5);
                    b1 = parseInt16 (slice s1 5 7);
                    r2 = parseInt16 (slice s2 1 3);
                    g2 = parseInt16 (slice s2 3 5);
                    b2 = parseInt16 (slice s2 5 7);
                    r = blend r1 r2 t;
                    g = blend g1 g2 t;
                    b = blend b1 b2 t
                in Inr (Str (''#'' @ padStart (toString16 r) 2 CHR ''0''
                                   @ padStart (toString16 g) 2 CHR ''0''
                                   @ padStart (toString16 b) 2 CHR ''0'')))
           | _ \<Rightarrow> Inl TypeError)
      | _ \<Rightarrow> Inl TypeError)"

definition getFillColor :: "shape \<Rightarrow> palette \<Rightarrow> jsnum \<Rightarrow> nat \<Rightarrow> real \<Rightarrow> error + jsval" where
  "getFillColor sh pal dst index time =
     (if fillMode sh = ''solid'' then Inr (Str (fillColor sh))
      else if fillMode sh = ''distance'' then
        (let cs = colors pal;
             t = jmul dst (Fin (real (length cs) - 1));
             i = Math_floor t;
             frac = jsub t i
         in if jge i (Fin (real (length cs) - 1))
            then Inr (js_index cs (Fin (real (length cs) - 1)))
            else interpolateColor (js_index cs i) (js_index cs (jadd i (Fin 1))) frac)
      else if fillMode sh = ''palette'' then
        (let cs = colors pal
         in Inr (js_index cs (js_rem (real index) (real (length cs)))))
      else if fillMode sh = ''random'' then
        (let cs = colors pal
         in Inr (js_index cs (js_rem (real index * 7) (real (length cs)))))
      else Inr (Str (fillColor sh)))"

definition getStrokeColor :: "shape \<Rightarrow> palette \<Rightarrow> jsnum \<Rightarrow> nat \<Rightarrow> error + jsval" where
  "getStrokeColor sh pal dst index =
     (if strokeMode sh = ''none'' then Inr Null
      else if strokeMode sh = ''solid'' then Inr (Str (strokeColor sh))
      else getFillColor sh pal dst index 0)"

section \<open>Module scopes and the animation clock\<close>

text \<open>
  An identifier of a module resolves to a binding of the module's scope, and reading
  an identifier with no binding throws a \<open>ReferenceError\<close>. The scope of grid.js
  holds the names it imports and the names it declares; state.js exports the names
  below.
\<close>

record store =
  st_grid :: grid
  st_shape :: shape
  st_pattern :: pattern
  st_animation :: animation
  st_palette :: palette

datatype binding =
    GridObj grid
  | ShapeObj shape
  | PatternObj pattern
  | AnimationObj animation
  | PaletteObj palette
  | OtherBinding

definition state_js_exports :: "store \<Rightarrow> (string \<times> binding) list" where
  "state_js_exports st =
     [(''canvas'', OtherBinding), (''ratioOptions'', OtherBinding),
      (''grid'', GridObj (st_grid st)), (''symmetryOptions'', OtherBinding),
      (''shape'', ShapeObj (st_shape st)), (''shapeTypeOptions'', OtherBinding),
      (''scaleModeOptions'', OtherBinding), (''fillModeOptions'', OtherBinding),
      (''blendModeOptions'', OtherBinding),
      (''pattern'', PatternObj (st_pattern st)),
      (''animation'', AnimationObj (st_animation st)),
      (''palette'', PaletteObj (st_palette st)),
      (''mask'', OtherBinding), (''customShape'', OtherBinding),
      (''exportSettings'', OtherBinding), (''preset'', OtherBinding),
      (''cloneState'', OtherBinding), (''applyState'', OtherBinding),
      (''easings'', OtherBinding), (''calculateScale'', OtherBinding),
      (''calculateRotation'', OtherBinding)]"

text \<open>\<open>import { names } from module\<close>.\<close>

definition import_names :: "string list \<Rightarrow> (string \<times> binding) list \<Rightarrow> (string \<times> binding) list" where
  "import_names names exports = filter (\<lambda>(name, _). name \<in> set names) exports"

definition declared :: "string list \<Rightarrow> (string \<times> binding) list" where
  "declared names = map (\<lambda>name. (name, OtherBinding)) names"

definition grid_js_scope :: "store \<Rightarrow> (string \<times> binding) list" where
  "grid_js_scope st =
     import_names
       [''grid'', ''shape'', ''canvas'', ''calculateScale'', ''calculateRotation'',
        ''palette'', ''pattern'', ''mask'']
       (state_js_exports st)
     @ declared
       [''createNoise2D'', ''createNoise3D'', ''noise2D'', ''noise3D'',
        ''getGridCenter'', ''getNormalizedDistance'', ''getGridCells'', ''applySymmetry'',
        ''getShapeSize'', ''getShapeRotation'', ''getNoiseValue'', ''getFillColor'',
        ''getStrokeColor'', ''interpolateColor'', ''getMaskValue'', ''updateCanvasSize'',
        ''getAnimationTime'']"

text \<open>
  \<open>getAnimationTime\<close> of grid.js reads the identifier \<open>animation\<close> in the scope of
  grid.js, extended by its parameter \<open>frameCount\<close>.
\<close>

definition getAnimationTime :: "(string \<times> binding) list \<Rightarrow> real \<Rightarrow> error + jsnum" where
  "getAnimationTime scope frameCount =
     (case map_of ((''frameCount'', OtherBinding) # scope) ''animation'' of
        None \<Rightarrow> Inl ReferenceError
      | Some (AnimationObj an) \<Rightarrow>
          (if \<not> animation_enabled an then Inr (Fin 0)
           else
             (let loopFrames = loopDuration an;
                  frame = js_rem frameCount loopFrames
              in Inr (jdiv frame (Fin loopFrames))))
      | Some _ \<Rightarrow> Inr (Fin 0))"

text \<open>
  The time that \<open>p.draw\<close> of main.js computes; main.js imports \<open>animation\<close> from
  state.js and \<open>getAnimationTime\<close> from grid.js.
\<close>

definition draw_time :: "store \<Rightarrow> real \<Rightarrow> error + jsnum" where
  "draw_time st frameCount =
     (if animation_enabled (st_animation st)
      then getAnimationTime (grid_js_scope st) frameCount
      else Inr (Fin 0))"

section \<open>Drawing a cell (main.js)\<close>

text \<open>
  \<open>drawCell\<close> ends in one call of \<open>drawShape\<close> or \<open>drawSVGPath\<close>, both with the
  position, the size and the rotation computed before; the record below holds these
  arguments and the two colours handed to the renderer.
\<close>

record draw_call =
  dc_x :: real
  dc_y :: real
  dc_size :: jsnum
  dc_rotation :: jsnum
  dc_fill :: jsval
  dc_stroke :: jsval

definition drawCell ::
  "(jsnum \<Rightarrow> jsnum \<Rightarrow> jsnum) \<Rightarrow> store \<Rightarrow> cell \<Rightarrow> nat \<Rightarrow> real \<Rightarrow> error + draw_call" where
  "drawCell noise2D st c index time =
     (let x = cell_x c;
          y = cell_y c;
          dst = cell_dist c;
          sh = st_shape st;
          an = st_animation st;
          size0 = getShapeSize noise2D (st_grid st) sh (st_pattern st) dst time;
          rotation0 = getShapeRotation sh dst (shape_rotation sh) time;
          animated = (animation_enabled an \<and> playing an);
          size1 =
            (if animated \<and> animateSize an
             then jmul size0
                    (Fin (7 / 10 + (sin (time * pi * 2 + real index * (1 / 10)) * (1 / 2) + 1 / 2) * (6 / 10)))
             else size0);
          rotation1 =
            (if animated \<and> animateRotation an
             then jadd rotation0 (Fin (time * 360 * speed an))
             else rotation0)
      in case getFillColor sh (st_palette st) dst index time of
           Inl e \<Rightarrow> Inl e
         | Inr fill \<Rightarrow>
             (case getStrokeColor sh (st_palette st) dst index of
                Inl e \<Rightarrow> Inl e
              | Inr stroke \<Rightarrow>
                  Inr \<lparr> dc_x = x, dc_y = y, dc_size = size1, dc_rotation = rotation1,
                        dc_fill = fill, dc_stroke = stroke \<rparr>))"

section \<open>Presets and the persisted format (state.js, presets.js)\<close>

text \<open>
  The preset code treats the configuration objects generically, key by key, so here an
  object is the list of its properties in insertion order, and a property holds a JSON
  value. The numbers of a configuration are finite. A JSON text is identified with the
  value it denotes: \<open>JSON.parse\<close> after \<open>JSON.stringify\<close> returns a value equal
  to the one serialised, for every value of this datatype.
\<close>

datatype json =
    JNull
  | JBool bool
  | JNum real
  | JStr string
  | JArr "json list"
  | JObj "(string \<times> json) list"

type_synonym obj = "(string \<times> json) list"

datatype json_text = Text json | Malformed


definition JSON_parse :: "json_text \<Rightarrow> error + json" where
  "JSON_parse txt = (case txt of Text v \<Rightarrow> Inr v | Malformed \<Rightarrow> Inl SyntaxError)"


definition truthy :: "json \<Rightarrow> bool" where
  "truthy v =
     (case v of
        JNull \<Rightarrow> False
      | JBool b \<Rightarrow> b
      | JNum r \<Rightarrow> r \<noteq> 0
      | JStr s \<Rightarrow> s \<noteq> []
      | _ \<Rightarrow> True)"

function decimal :: "nat \<Rightarrow> string" where
  "decimal n =
     (if n < 10 then [''0123456789'' ! n] else decimal (n div 10) @ [''0123456789'' ! (n mod 10)])"
  by pat_completeness auto
termination
  by (relation "measure id") auto

declare decimal.simps [simp del]

text \<open>
  \<open>Object.keys(v)\<close> with the values under the keys: the properties of an object, the
  indexed elements of an array, the indexed characters of a string, nothing otherwise.
\<close>

definition own_entries :: "json \<Rightarrow> obj" where
  "own_entries v =
     (case v of
        JObj fs \<Rightarrow> fs
      | JArr xs \<Rightarrow> zip (map decimal [0 ..< length xs]) xs
      | JStr s \<Rightarrow> zip (map decimal [0 ..< length s]) (map (\<lambda>c. JStr [c]) s)
      | _ \<Rightarrow> [])"

text \<open>
  \<open>applyState(target, source)\<close> over the entries of \<open>source\<close>. The result is
  \<open>None\<close> in the one situation that JSON values cannot express: the merge of an
  object into a property of the target that holds an array.
\<close>

fun applyState :: "obj \<Rightarrow> obj \<Rightarrow> obj option" where
  "applyState target [] = Some target"
| "applyState target ((key, sv) # rest) =
     (case sv of
        JObj sfs \<Rightarrow>
          (case map_of target key of
             Some (JObj tfs) \<Rightarrow>
               (case applyState tfs sfs of
                  None \<Rightarrow> None
                | Some merged \<Rightarrow> applyState (AList.update key (JObj merged) target) rest)
           | Some (JArr txs) \<Rightarrow> None
           | _ \<Rightarrow> applyState (AList.update key sv target) rest)
      | _ \<Rightarrow> applyState (AList.update key sv target) rest)"

record config =
  cfg_canvas :: obj
  cfg_grid :: obj
  cfg_shape :: obj
  cfg_pattern :: obj
  cfg_animation :: obj
  cfg_palette :: obj

text \<open>\<open>preset.key\<close> for a preset that is not \<open>null\<close>.\<close>

definition get_prop :: "json \<Rightarrow> string \<Rightarrow> json option" where
  "get_prop v key = (case v of JObj fs \<Rightarrow> map_of fs key | _ \<Rightarrow> None)"

text \<open>\<open>if (preset.key) applyState(target, preset.key)\<close>.\<close>

definition applySection :: "obj \<Rightarrow> json option \<Rightarrow> obj option" where
  "applySection target v =
     (case v of
        None \<Rightarrow> Some target
      | Some s \<Rightarrow> if truthy s then applyState target (own_entries s) else Some target)"

text \<open>
  \<open>[...v]\<close>: the elements of an array, the characters of a string, a
  \<open>TypeError\<close> for a value that is not iterable (\<open>None\<close> is \<open>undefined\<close>).
\<close>

definition spread :: "json option \<Rightarrow> error + json list" where
  "spread v =
     (case v of
        Some (JArr xs) \<Rightarrow> Inr xs
      | Some (JStr s) \<Rightarrow> Inr (map (\<lambda>c. JStr [c]) s)
      | _ \<Rightarrow> Inl TypeError)"

text \<open>
  \<open>if (preset.palette) { if (preset.palette.colors) palette.colors =
  [...preset.palette.colors] }\<close>.
\<close>

definition applyPalette :: "obj \<Rightarrow> json option \<Rightarrow> error + obj" where
  "applyPalette pal v =
     (case v of
        None \<Rightarrow> Inr pal
      | Some p \<Rightarrow>
          if \<not> truthy p then Inr pal
          else
            (case get_prop p ''colors'' of
               None \<Rightarrow> Inr pal
             | Some cs \<Rightarrow>
                 if \<not> truthy cs then Inr pal
                 else
                   (case spread (Some cs) of
                      Inl e \<Rightarrow> Inl e
                    | Inr xs \<Rightarrow> Inr (AList.update ''colors'' (JArr xs) pal))))"

text \<open>
  \<open>applyPreset\<close> returns the configuration as it leaves it, and the exception if it
  ends in one: what it has written before an exception stays written.
\<close>

definition applyPreset :: "config \<Rightarrow> json \<Rightarrow> (config \<times> error option) option" where
  "applyPreset cfg preset =
     (if preset = JNull then Some (cfg, Some TypeError)
      else do {
        g \<leftarrow> applySection (cfg_grid cfg) (get_prop preset ''grid'');
        s \<leftarrow> applySection (cfg_shape cfg) (get_prop preset ''shape'');
        p \<leftarrow> applySection (cfg_pattern cfg) (get_prop preset ''pattern'');
        a \<leftarrow> applySection (cfg_animation cfg) (get_prop preset ''animation'');
        let cfg1 = cfg\<lparr>cfg_grid := g, cfg_shape := s, cfg_pattern := p, cfg_animation := a\<rparr>
        in case applyPalette (cfg_palette cfg) (get_prop preset ''palette'') of
             Inl e \<Rightarrow> Some (cfg1, Some e)
           | Inr pal \<Rightarrow> do {
               c \<leftarrow> applySection (cfg_canvas cfg) (get_prop preset ''canvas'');
               Some (cfg1\<lparr>cfg_palette := pal, cfg_canvas := c\<rparr>, None)
             }
      })"


text \<open>
  \<open>importState\<close> returns its boolean and the configuration it leaves: \<open>false\<close> when
  parsing or applying the preset threw.
\<close>

definition importState :: "config \<Rightarrow> json_text \<Rightarrow> (bool \<times> config) option" where
  "importState cfg txt =
     (case JSON_parse txt of
        Inl e \<Rightarrow> Some (False, cfg)
      | Inr data \<Rightarrow>
          (case applyPreset cfg data of
             None \<Rightarrow> None
           | Some (cfg', None) \<Rightarrow> Some (True, cfg')
           | Some (cfg', Some e) \<Rightarrow> Some (False, cfg')))"


text \<open>The configuration that state.js starts with, in the fields of the persisted format.\<close>

definition initial_config :: config where
  "initial_config =
     \<lparr> cfg_canvas =
         [(''width'', JNum 800), (''height'', JNum 800), (''scale'', JNum (95 / 100)),
          (''ratio'', JStr ''1:1''), (''background'', JStr ''#111111''),
          (''showGrid'', JBool False), (''gridColor'', JStr ''#333333'')],
       cfg_grid =
         [(''cols'', JNum 12), (''rows'', JNum 12), (''cellSize'', JNum 60),
          (''offsetX'', JNum 0), (''offsetY'', JNum 0), (''symmetry'', JStr ''none''),
          (''symmetryCount'', JNum 6)],
       cfg_shape =
         [(''type'', JStr ''circle''), (''size'', JNum (8 / 10)), (''rotation'', JNum 0),
          (''rotationAuto'', JBool False), (''rotationSpeed'', JNum (1 / 2)),
          (''scaleMode'', JStr ''linear''), (''scaleMin'', JNum (2 / 10)),
          (''scaleMax'', JNum 1), (''scalePower'', JNum 1),
          (''rotateMode'', JStr ''none''), (''rotateMin'', JNum 0), (''rotateMax'', JNum 360),
          (''fillMode'', JStr ''solid''), (''fillColor'', JStr ''#4a9eff''),
          (''fillOpacity'', JNum 1), (''strokeMode'', JStr ''none''),
          (''strokeColor'', JStr ''#ffffff''), (''strokeWeight'', JNum 1),
          (''strokeOpacity'', JNum 1), (''blendMode'', JStr ''blend'')],
       cfg_pattern =
         [(''enabled'', JBool False), (''seed'', JNum 1), (''noiseScale'', JNum (1 / 10)),
          (''noiseIntensity'', JNum (1 / 2)), (''noiseOctaves'', JNum 1),
          (''seedRandom'', JBool True)],
       cfg_animation =
         [(''enabled'', JBool False), (''speed'', JNum 1), (''loopDuration'', JNum 120),
          (''currentFrame'', JNum 0), (''playing'', JBool False), (''record'', JBool False),
          (''animateSize'', JBool True), (''animateRotation'', JBool False),
          (''animateColor'', JBool False), (''animatePosition'', JBool False),
          (''sizeRange'', JNum (3 / 10)), (''rotationRange'', JNum 180),
          (''colorShift'', JNum (1 / 10)), (''positionRange'', JNum 10)],
       cfg_palette =
         [(''colors'', JArr [JStr ''#4a9eff'', JStr ''#ff6b6b'', JStr ''#4ecdc4'',
                              JStr ''#ffe66d'', JStr ''#a8e6cf'']),
          (''useGradient'', JBool False), (''gradientAngle'', JNum 0)] \<rparr>"


text \<open>The number of instances that \<open>applySymmetry\<close> emits for one base cell.\<close>

definition instances :: "grid \<Rightarrow> nat" where
  "instances g = length (applySymmetry g 0 0 0 0 NaN (getGridCenter g))"


definition initial_store :: store where
  "initial_store =
     \<lparr> st_grid = initial_grid, st_shape = initial_shape, st_pattern = initial_pattern,
       st_animation = initial_animation, st_palette = initial_palette \<rparr>"











section \<open>Cell counts and emission order\<close>

lemma length_concat_const:
  assumes "\<And>x. x \<in> set xs \<Longrightarrow> length (f x) = k"
  shows "length (concat (map f xs)) = k * length xs"
  using assms by (induction xs) simp_all

lemma length_applySymmetry:
  "length (applySymmetry g x y col row d c) =
     (if symmetry g = ''horizontal'' \<or> symmetry g = ''vertical'' then 2
      else if symmetry g = ''both'' then 4
      else if symmetry g = ''radial'' then 1 + nat (symmetryCount g - 1)
      else 1)"
  by (simp add: applySymmetry_def)

lemma length_baseCell: "length (baseCell g c row col) = instances g"
  by (simp add: baseCell_def instances_def length_applySymmetry Let_def)

lemma length_getGridCells:
  "length (getGridCells g) = instances g * nat (cols g) * nat (rows g)"
proof -
  have row: "length (concat (map (baseCell g (getGridCenter g) row) [0 .. cols g - 1])) =
      instances g * nat (cols g)" for row
    by (subst length_concat_const [where k = "instances g"]) (simp_all add: length_baseCell)
  show ?thesis
    unfolding getGridCells_def Let_def
    by (subst length_concat_const [where k = "instances g * nat (cols g)"]) (simp_all add: row)
qed

lemma cell_count:
  assumes "1 \<le> cols g" and "1 \<le> rows g"
  shows "int (length (getGridCells g)) = cols g * rows g * int (instances g)"
  using assms by (simp add: length_getGridCells)

text \<open>
  Claim C4. For a grid with at least one column and one row, \<open>getGridCells\<close> emits
  the base cell count \<open>cols * rows\<close> times 1 under no symmetry, times 2 under
  horizontal or vertical symmetry, times 4 under both, and times \<open>symmetryCount\<close>
  under radial symmetry with a count of at least 1. The instances of a base cell start
  with the original, and under both they are the original, the horizontal mirror, the
  vertical mirror and the mirror in both axes, in this order.
\<close>

theorem symmetry_instance_counts:
  assumes "1 \<le> cols g" and "1 \<le> rows g"
  shows "(symmetry g = ''none'' \<longrightarrow> int (length (getGridCells g)) = cols g * rows g * 1)
       \<and> (symmetry g = ''horizontal'' \<longrightarrow> int (length (getGridCells g)) = cols g * rows g * 2)
       \<and> (symmetry g = ''vertical'' \<longrightarrow> int (length (getGridCells g)) = cols g * rows g * 2)
       \<and> (symmetry g = ''both'' \<longrightarrow> int (length (getGridCells g)) = cols g * rows g * 4)
       \<and> (symmetry g = ''radial'' \<and> 1 \<le> symmetryCount g \<longrightarrow>
            int (length (getGridCells g)) = cols g * rows g * symmetryCount g)
       \<and> hd (applySymmetry g x y col row d c) =
            \<lparr> cell_x = x, cell_y = y, cell_col = col, cell_row = row, cell_dist = d,
              isOriginal = True, cell_rotation = None \<rparr>
       \<and> (symmetry g = ''both'' \<longrightarrow>
            applySymmetry g x y col row d c =
              [\<lparr> cell_x = x, cell_y = y, cell_col = col, cell_row = row, cell_dist = d,
                 isOriginal = True, cell_rotation = None \<rparr>,
               \<lparr> cell_x = px c * 2 - x, cell_y = y, cell_col = cols g - 1 - col,
                 cell_row = row, cell_dist = d, isOriginal = False, cell_rotation = None \<rparr>,
               \<lparr> cell_x = x, cell_y = py c * 2 - y, cell_col = col,
                 cell_row = rows g - 1 - row, cell_dist = d, isOriginal = False,
                 cell_rotation = None \<rparr>,
               \<lparr> cell_x = px c * 2 - x, cell_y = py c * 2 - y, cell_col = cols g - 1 - col,
                 cell_row = rows g - 1 - row, cell_dist = d, isOriginal = False,
                 cell_rotation = None \<rparr>])"
proof -
  have n: "int (length (getGridCells g)) = cols g * rows g * int (instances g)"
    using assms by (rule cell_count)
  have i: "symmetry g = ''none'' \<Longrightarrow> instances g = 1"
    "symmetry g = ''horizontal'' \<Longrightarrow> instances g = 2"
    "symmetry g = ''vertical'' \<Longrightarrow> instances g = 2"
    "symmetry g = ''both'' \<Longrightarrow> instances g = 4"
    "symmetry g = ''radial'' \<Longrightarrow> 1 \<le> symmetryCount g \<Longrightarrow> int (instances g) = symmetryCount g"
    by (simp_all add: instances_def length_applySymmetry)
  have first: "hd (applySymmetry g x y col row d c) =
            \<lparr> cell_x = x, cell_y = y, cell_col = col, cell_row = row, cell_dist = d,
              isOriginal = True, cell_rotation = None \<rparr>"
    by (simp add: applySymmetry_def Let_def)
  have both: "symmetry g = ''both'' \<Longrightarrow>
            applySymmetry g x y col row d c =
              [\<lparr> cell_x = x, cell_y = y, cell_col = col, cell_row = row, cell_dist = d,
                 isOriginal = True, cell_rotation = None \<rparr>,
               \<lparr> cell_x = px c * 2 - x, cell_y = y, cell_col = cols g - 1 - col,
                 cell_row = row, cell_dist = d, isOriginal = False, cell_rotation = None \<rparr>,
               \<lparr> cell_x = x, cell_y = py c * 2 - y, cell_col = col,
                 cell_row = rows g - 1 - row, cell_dist = d, isOriginal = False,
                 cell_rotation = None \<rparr>,
               \<lparr> cell_x = px c * 2 - x, cell_y = py c * 2 - y, cell_col = cols g - 1 - col,
                 cell_row = rows g - 1 - row, cell_dist = d, isOriginal = False,
                 cell_rotation = None \<rparr>]"
    by (simp add: applySymmetry_def)
  show ?thesis
    using n i first both
    by (intro conjI impI) simp_all
qed

theorem symmetry_instance_counts_witness:
  "1 \<le> cols initial_grid \<and> 1 \<le> rows initial_grid \<and> 1 \<le> symmetryCount initial_grid
   \<and> int (length (getGridCells (initial_grid\<lparr>symmetry := ''none''\<rparr>))) = 144
   \<and> int (length (getGridCells (initial_grid\<lparr>symmetry := ''horizontal''\<rparr>))) = 288
   \<and> int (length (getGridCells (initial_grid\<lparr>symmetry := ''vertical''\<rparr>))) = 288
   \<and> int (length (getGridCells (initial_grid\<lparr>symmetry := ''both''\<rparr>))) = 576
   \<and> int (length (getGridCells (initial_grid\<lparr>symmetry := ''radial''\<rparr>))) = 864
   \<and> map isOriginal
        (applySymmetry (initial_grid\<lparr>symmetry := ''both''\<rparr>) 30 30 0 0 (Fin 1)
           (getGridCenter initial_grid))
      = [True, False, False, False]"
  using symmetry_instance_counts [of "initial_grid\<lparr>symmetry := ''none''\<rparr>"]
    symmetry_instance_counts [of "initial_grid\<lparr>symmetry := ''horizontal''\<rparr>"]
    symmetry_instance_counts [of "initial_grid\<lparr>symmetry := ''vertical''\<rparr>"]
    symmetry_instance_counts [of "initial_grid\<lparr>symmetry := ''both''\<rparr>" 30 30 0 0 "Fin 1"
      "getGridCenter initial_grid"]
    symmetry_instance_counts [of "initial_grid\<lparr>symmetry := ''radial''\<rparr>"]
  by (simp add: initial_grid_def)

section \<open>Normalised distance\<close>






lemma distance_zero_diagonal:
  assumes "maxDist g = 0"
  shows "getNormalizedDistance g x y =
     (if x = px (getGridCenter g) \<and> y = py (getGridCenter g) then NaN else Fin 1)"
proof -
  let ?s = "(x - px (getGridCenter g))\<^sup>2 + (y - py (getGridCenter g))\<^sup>2"
  have "?s = 0 \<longleftrightarrow> x = px (getGridCenter g) \<and> y = py (getGridCenter g)"
    by (simp add: sum_power2_eq_zero_iff)
  moreover have "0 \<le> ?s" by simp
  ultimately show ?thesis
    using assms by (auto simp add: getNormalizedDistance_def Let_def less_le)
qed

text \<open>
  Claim C2. The claim asks for the distance 0 when the half-diagonal is 0. With a cell
  size of 0 the half-diagonal is 0 and the function divides by it: at the grid centre
  \<open>(0, 0)\<close> the result is \<open>NaN\<close>, at \<open>(5, 0)\<close> it is 1, and the cell of a
  grid of one column and one row carries the distance \<open>NaN\<close>. By
  \<open>distance_zero_diagonal\<close> the result is 0 at no point when the half-diagonal is 0.
\<close>

theorem distance_zero_cell_size:
  "maxDist (initial_grid\<lparr>cellSize := 0\<rparr>) = 0
   \<and> getNormalizedDistance (initial_grid\<lparr>cellSize := 0\<rparr>) 0 0 = NaN
   \<and> getNormalizedDistance (initial_grid\<lparr>cellSize := 0\<rparr>) 5 0 = Fin 1
   \<and> map cell_dist (getGridCells (initial_grid\<lparr>cols := 1, rows := 1, cellSize := 0\<rparr>)) = [NaN]"
proof -
  have m: "maxDist (initial_grid\<lparr>cellSize := 0\<rparr>) = 0"
    by (simp add: maxDist_def)
  have m1: "maxDist (initial_grid\<lparr>cols := 1, rows := 1, cellSize := 0\<rparr>) = 0"
    by (simp add: maxDist_def)
  have a: "getNormalizedDistance (initial_grid\<lparr>cellSize := 0\<rparr>) 0 0 = NaN"
    by (subst distance_zero_diagonal [OF m]) (simp add: getGridCenter_def initial_grid_def)
  have b: "getNormalizedDistance (initial_grid\<lparr>cellSize := 0\<rparr>) 5 0 = Fin 1"
    by (subst distance_zero_diagonal [OF m]) (simp add: getGridCenter_def initial_grid_def)
  have c: "getNormalizedDistance (initial_grid\<lparr>cols := 1, rows := 1, cellSize := 0\<rparr>) 0 0 = NaN"
    by (subst distance_zero_diagonal [OF m1]) (simp add: getGridCenter_def initial_grid_def)
  have "getGridCells (initial_grid\<lparr>cols := 1, rows := 1, cellSize := 0\<rparr>) =
      [\<lparr> cell_x = 0, cell_y = 0, cell_col = 0, cell_row = 0,
         cell_dist = getNormalizedDistance (initial_grid\<lparr>cols := 1, rows := 1, cellSize := 0\<rparr>) 0 0,
         isOriginal = True, cell_rotation = None \<rparr>]"
    by (simp add: getGridCells_def baseCell_def applySymmetry_def initial_grid_def Let_def)
  then have d: "map cell_dist (getGridCells (initial_grid\<lparr>cols := 1, rows := 1, cellSize := 0\<rparr>)) = [NaN]"
    by (simp add: c)
  from m a b d show ?thesis by simp
qed

section \<open>Radial copies and the drawn rotation\<close>

lemma radial_copies:
  assumes "symmetry g = ''radial''" and "1 \<le> i" and "i < symmetryCount g"
  shows "applySymmetry g x y col row d c ! nat i = radialCopy g x y col row d c i"
proof -
  have "applySymmetry g x y col row d c ! nat i =
      map (radialCopy g x y col row d c) [1 .. symmetryCount g - 1] ! (nat i - 1)"
    using assms by (simp add: applySymmetry_def nth_append)
  also have "\<dots> = radialCopy g x y col row d c ([1 .. symmetryCount g - 1] ! (nat i - 1))"
    using assms by (intro nth_map) simp
  also have "[1 .. symmetryCount g - 1] ! (nat i - 1) = 1 + int (nat i - 1)"
    using assms by (intro nth_upto) simp
  finally show ?thesis using assms by simp
qed

lemma radial_copy_tag:
  assumes "symmetry g = ''radial''" and "1 \<le> i" and "i < symmetryCount g"
  shows "cell_rotation (applySymmetry g x y col row d c ! nat i)
           = Some ((360 * of_int i) / of_int (symmetryCount g))"
  using radial_copies [OF assms] by (simp add: radialCopy_def Let_def)

lemma drawCell_ignores_tag:
  "drawCell noise2D st (c\<lparr>cell_rotation := r\<rparr>) index time = drawCell noise2D st c index time"
  by (simp add: drawCell_def)

lemma drawCell_rotation:
  assumes "drawCell noise2D st c index time = Inr dc"
  shows "dc_rotation dc =
     (if animation_enabled (st_animation st) \<and> playing (st_animation st)
         \<and> animateRotation (st_animation st)
      then jadd (getShapeRotation (st_shape st) (cell_dist c) (shape_rotation (st_shape st)) time)
             (Fin (time * 360 * speed (st_animation st)))
      else getShapeRotation (st_shape st) (cell_dist c) (shape_rotation (st_shape st)) time)"
  using assms by (auto simp add: drawCell_def Let_def split: sum.splits)

lemma first_base_cell:
  assumes "1 \<le> cols g" and "1 \<le> rows g"
  shows "\<exists>rest. getGridCells g = baseCell g (getGridCenter g) 0 0 @ rest"
proof -
  have c: "[0 .. cols g - 1] = 0 # [1 .. cols g - 1]"
    using assms(1) by (simp add: upto_rec1)
  have r: "[0 .. rows g - 1] = 0 # [1 .. rows g - 1]"
    using assms(2) by (simp add: upto_rec1)
  show ?thesis
    unfolding getGridCells_def Let_def by (subst r, subst c) simp
qed

text \<open>
  Claim C1. Under radial symmetry with a count of 4, the cell of index 1, which is the
  first copy of the base cell in column 0 and row 0, carries the tag \<open>rotation = 90\<close>,
  and \<open>drawCell\<close> hands the renderer the rotation 0 that the rotation mapper returns:
  the tag is not added.
\<close>

theorem radial_tag_not_drawn:
  "cell_rotation (getGridCells (initial_grid\<lparr>symmetry := ''radial'', symmetryCount := 4\<rparr>) ! 1)
     = Some 90
   \<and> getShapeRotation initial_shape
        (cell_dist (getGridCells (initial_grid\<lparr>symmetry := ''radial'', symmetryCount := 4\<rparr>) ! 1))
        (shape_rotation initial_shape) 0 = Fin 0
   \<and> map_sum id dc_rotation
        (drawCell (\<lambda>nx ny. Fin 0)
           (initial_store\<lparr>st_grid := initial_grid\<lparr>symmetry := ''radial'', symmetryCount := 4\<rparr>\<rparr>)
           (getGridCells (initial_grid\<lparr>symmetry := ''radial'', symmetryCount := 4\<rparr>) ! 1)
           1 0)
      = Inr (Fin 0)"
proof -
  let ?g = "initial_grid\<lparr>symmetry := ''radial'', symmetryCount := 4\<rparr>"
  let ?c = "baseCell ?g (getGridCenter ?g) 0 0 ! 1"
  have "1 \<le> cols ?g" and "1 \<le> rows ?g"
    by (simp_all add: initial_grid_def)
  then obtain rest where "getGridCells ?g = baseCell ?g (getGridCenter ?g) 0 0 @ rest"
    using first_base_cell by blast
  moreover have "length (baseCell ?g (getGridCenter ?g) 0 0) = 4"
    by (simp add: baseCell_def length_applySymmetry Let_def)
  ultimately have cell: "getGridCells ?g ! 1 = ?c"
    by (simp add: nth_append)
  have g: "symmetry ?g = ''radial''" "(1::int) \<le> 1" "1 < symmetryCount ?g"
    by simp_all
  have tag: "cell_rotation ?c = Some 90"
    using radial_copy_tag [OF g] by (simp add: baseCell_def Let_def)
  have rot: "getShapeRotation initial_shape d (shape_rotation initial_shape) 0 = Fin 0" for d
    by (simp add: getShapeRotation_def calculateRotation_def initial_shape_def)
  have "drawCell (\<lambda>nx ny. Fin 0) (initial_store\<lparr>st_grid := ?g\<rparr>) c 1 0 =
      Inr \<lparr> dc_x = cell_x c, dc_y = cell_y c,
            dc_size = getShapeSize (\<lambda>nx ny. Fin 0) ?g initial_shape initial_pattern (cell_dist c) 0,
            dc_rotation = Fin 0, dc_fill = Str ''#4a9eff'', dc_stroke = Null \<rparr>" for c
    by (simp add: drawCell_def initial_store_def Let_def getShapeRotation_def
        calculateRotation_def getFillColor_def getStrokeColor_def initial_shape_def
        initial_animation_def)
  then show ?thesis using tag rot cell by simp
qed

section \<open>The animation clock\<close>

text \<open>
  Claim C3. In the scope of grid.js the identifier \<open>animation\<close> has no binding, so
  \<open>getAnimationTime\<close> throws a \<open>ReferenceError\<close> for every frame count and every
  configuration, and so does the time computation of \<open>p.draw\<close> whenever the
  animation is enabled.
\<close>

theorem getAnimationTime_throws:
  "getAnimationTime (grid_js_scope st) frameCount = Inl ReferenceError
   \<and> draw_time (st\<lparr>st_animation := (st_animation st)\<lparr>animation_enabled := True\<rparr>\<rparr>) frameCount
       = Inl ReferenceError"
proof -
  have "getAnimationTime (grid_js_scope s) frameCount = Inl ReferenceError" for s
    by (simp add: getAnimationTime_def grid_js_scope_def import_names_def declared_def
        state_js_exports_def)
  then show ?thesis by (simp add: draw_time_def)
qed

lemma getAnimationTime_with_import:
  "getAnimationTime ((''animation'', AnimationObj (initial_animation\<lparr>animation_enabled := True\<rparr>)) # grid_js_scope st) 150
     = Inr (Fin (1 / 4))"
  by (simp add: getAnimationTime_def js_rem_def initial_animation_def)

section \<open>Palette lookup by index\<close>

lemma js_rem_nat:
  assumes "0 < n"
  shows "js_rem (real a) (real n) = Fin (real (a mod n))"
proof -
  have "\<lfloor>real a / real n\<rfloor> = int (a div n)"
    by (simp add: floor_divide_of_nat_eq)
  moreover have "real a = real n * real (a div n) + real (a mod n)"
    by (metis mult_div_mod_eq of_nat_add of_nat_mult)
  ultimately show ?thesis using assms by (simp add: js_rem_def)
qed

lemma js_index_nat: "k < length xs \<Longrightarrow> js_index xs (Fin (real k)) = Str (xs ! k)"
  by (simp add: js_index_def)

text \<open>
  Claim C7. With the fill mode \<open>random\<close> and a palette that is not empty,
  \<open>getFillColor\<close> returns the palette colour at position \<open>(index * 7) mod N\<close>,
  whatever the distance and the time.
\<close>

theorem random_fill_by_index:
  assumes "fillMode sh = ''random''" and "colors pal \<noteq> []"
  shows "getFillColor sh pal dst index time =
           Inr (Str (colors pal ! ((index * 7) mod length (colors pal))))"
proof -
  have n: "0 < length (colors pal)" using assms(2) by simp
  have "real index * 7 = real (index * 7)" by simp
  then have "js_rem (real index * 7) (real (length (colors pal)))
      = Fin (real ((index * 7) mod length (colors pal)))"
    using js_rem_nat [OF n, of "index * 7"] by simp
  moreover have "(index * 7) mod length (colors pal) < length (colors pal)"
    using n by simp
  ultimately show ?thesis
    using assms(1) by (simp add: getFillColor_def js_index_nat Let_def)
qed

theorem random_fill_by_index_witness:
  "fillMode (initial_shape\<lparr>fillMode := ''random''\<rparr>) = ''random''
   \<and> colors initial_palette \<noteq> []
   \<and> length (colors initial_palette) = 5
   \<and> getFillColor (initial_shape\<lparr>fillMode := ''random''\<rparr>) initial_palette NaN 0 0
        = Inr (Str ''#4a9eff'')
   \<and> getFillColor (initial_shape\<lparr>fillMode := ''random''\<rparr>) initial_palette (Fin 1) 1 (1 / 2)
        = Inr (Str ''#4ecdc4'')
   \<and> getFillColor (initial_shape\<lparr>fillMode := ''random''\<rparr>) initial_palette (Fin 0) 13 0
        = Inr (Str ''#ff6b6b'')
   \<and> getFillColor (initial_shape\<lparr>fillMode := ''random''\<rparr>) initial_palette (Fin (1 / 3)) 20 0
        = Inr (Str ''#4a9eff'')"
  using random_fill_by_index [of "initial_shape\<lparr>fillMode := ''random''\<rparr>" initial_palette NaN 0 0]
    random_fill_by_index [of "initial_shape\<lparr>fillMode := ''random''\<rparr>" initial_palette "Fin 1" 1 "1 / 2"]
    random_fill_by_index [of "initial_shape\<lparr>fillMode := ''random''\<rparr>" initial_palette "Fin 0" 13 0]
    random_fill_by_index [of "initial_shape\<lparr>fillMode := ''random''\<rparr>" initial_palette "Fin (1 / 3)" 20 0]
  by (simp add: initial_palette_def)

section \<open>Unknown modes\<close>

text \<open>
  Claim C9. A mode string that is none of the recognised ones falls back to a default:
  \<open>calculateScale\<close> scales as under \<open>linear\<close>, \<open>getFillColor\<close> returns the
  configured fill colour, and \<open>applySymmetry\<close> emits the original instance alone, as
  it does under \<open>none\<close>.
\<close>

theorem unknown_modes_fall_back:
  "(scaleMode sh \<notin> set [''none'', ''linear'', ''easeIn'', ''easeOut'', ''easeInOut'', ''step'', ''swirl'']
      \<longrightarrow> calculateScale sh dst = calculateScale (sh\<lparr>scaleMode := ''linear''\<rparr>) dst
        \<and> calculateScale sh dst =
            jadd (Fin (scaleMin sh)) (jmul (Fin (scaleMax sh - scaleMin sh)) (jsub (Fin 1) dst)))
   \<and> (fillMode sh \<notin> set [''solid'', ''distance'', ''palette'', ''random'']
      \<longrightarrow> getFillColor sh pal dst index time = Inr (Str (fillColor sh)))
   \<and> (symmetry g \<notin> set [''none'', ''horizontal'', ''vertical'', ''both'', ''radial'']
      \<longrightarrow> applySymmetry g x y col row dst c = applySymmetry (g\<lparr>symmetry := ''none''\<rparr>) x y col row dst c
        \<and> applySymmetry g x y col row dst c =
            [\<lparr> cell_x = x, cell_y = y, cell_col = col, cell_row = row, cell_dist = dst,
               isOriginal = True, cell_rotation = None \<rparr>])"
  by (simp add: calculateScale_def ease_linear_def getFillColor_def applySymmetry_def Let_def)

theorem unknown_modes_fall_back_witness:
  "scaleMode (initial_shape\<lparr>scaleMode := ''bounce'', fillMode := ''gradient''\<rparr>)
     \<notin> set [''none'', ''linear'', ''easeIn'', ''easeOut'', ''easeInOut'', ''step'', ''swirl'']
   \<and> fillMode (initial_shape\<lparr>scaleMode := ''bounce'', fillMode := ''gradient''\<rparr>)
     \<notin> set [''solid'', ''distance'', ''palette'', ''random'']
   \<and> symmetry (initial_grid\<lparr>symmetry := ''diagonal''\<rparr>)
     \<notin> set [''none'', ''horizontal'', ''vertical'', ''both'', ''radial'']
   \<and> calculateScale (initial_shape\<lparr>scaleMode := ''bounce'', fillMode := ''gradient''\<rparr>) (Fin (1 / 4))
       = Fin (8 / 10)
   \<and> getFillColor (initial_shape\<lparr>scaleMode := ''bounce'', fillMode := ''gradient''\<rparr>)
        initial_palette (Fin (1 / 4)) 3 0 = Inr (Str ''#4a9eff'')
   \<and> map isOriginal
        (applySymmetry (initial_grid\<lparr>symmetry := ''diagonal''\<rparr>) 30 30 0 0 (Fin (1 / 4))
           (getGridCenter initial_grid)) = [True]"
  using unknown_modes_fall_back
    [of "initial_shape\<lparr>scaleMode := ''bounce'', fillMode := ''gradient''\<rparr>" "Fin (1 / 4)"
        initial_palette 3 0 "initial_grid\<lparr>symmetry := ''diagonal''\<rparr>" 30 30 0 0
        "getGridCenter initial_grid"]
  by (simp add: initial_shape_def jsub_def calculateScale_def ease_linear_def
      getFillColor_def applySymmetry_def Let_def)

section \<open>Uniform scale\<close>

text \<open>
  Claim C10. With the scale mode \<open>none\<close>, \<open>calculateScale\<close> returns
  \<open>shape.size\<close> for every distance, whatever \<open>scaleMin\<close> and \<open>scaleMax\<close> are, so
  with the pattern disabled \<open>getShapeSize\<close> returns
  \<open>cellSize * shape.size * shape.size\<close>.
\<close>

theorem uniform_scale_squares_size:
  assumes "scaleMode sh = ''none''"
  shows "calculateScale sh dst = Fin (shape_size sh)
       \<and> calculateScale (sh\<lparr>scaleMin := lo, scaleMax := hi\<rparr>) dst' = calculateScale sh dst
       \<and> (\<not> pattern_enabled pat \<longrightarrow>
            getShapeSize noise2D g sh pat dst time
              = Fin (cellSize g * shape_size sh * shape_size sh))"
  using assms by (simp add: calculateScale_def getShapeSize_def Let_def)

theorem uniform_scale_squares_size_witness:
  "scaleMode (initial_shape\<lparr>scaleMode := ''none''\<rparr>) = ''none''
   \<and> \<not> pattern_enabled initial_pattern
   \<and> calculateScale (initial_shape\<lparr>scaleMode := ''none''\<rparr>) (Fin (1 / 2)) = Fin (8 / 10)
   \<and> getShapeSize (\<lambda>nx ny. Fin 0) initial_grid (initial_shape\<lparr>scaleMode := ''none''\<rparr>)
        initial_pattern (Fin (1 / 2)) 0 = Fin (384 / 10)"
  using uniform_scale_squares_size
    [of "initial_shape\<lparr>scaleMode := ''none''\<rparr>" "Fin (1 / 2)" 0 1 "Fin (1 / 2)"
        initial_pattern "\<lambda>nx ny. Fin 0" initial_grid 0]
  by (simp add: initial_shape_def initial_pattern_def initial_grid_def)

section \<open>Export and import of the configuration\<close>










text \<open>An import does change the configuration: here it sets the column count.\<close>

lemma importState_sets_cols:
  "map_option (\<lambda>(ok, cfg). (ok, map_of (cfg_grid cfg) ''cols''))
     (importState initial_config (Text (JObj [(''grid'', JObj [(''cols'', JNum 15)])])))
   = Some (True, Some (JNum 15))"
  by (simp add: importState_def JSON_parse_def applyPreset_def get_prop_def applySection_def
      truthy_def own_entries_def applyPalette_def initial_config_def)



section \<open>The distance gradient\<close>



















end
